theory Spec2Isabelle
  imports Complex_Main "HOL-Library.Sublist"
begin

section \<open>Ollama API server: the gateway handlers of main.py\<close>

text \<open>
  The handlers of \<^verbatim>\<open>main.py\<close> are embedded as functions of the upstream daemon. A
  handler is given a \<open>client\<close>, the function that answers each outgoing HTTP request with
  what \<^verbatim>\<open>httpx.AsyncClient\<close> produces for it (a response or an exception), and returns the
  list of upstream requests it issued together with its own outcome: the value it
  returns, or the \<^verbatim>\<open>HTTPException\<close> it raises. Python strings are byte lists in UTF-8,
  so the Chinese message texts of the source appear as explicit bytes.
\<close>

subsection \<open>JSON values and the upstream exchange\<close>

text \<open>
  What \<^verbatim>\<open>response.json()\<close> yields. A JSON object is the parsed Python dict, read with
  \<open>map_of\<close>; an array keeps its order.
\<close>

datatype json_value =
    JNull
  | JBool bool
  | JInt int
  | JFloat rat
  | JStr string
  | JArr "json_value list"
  | JObj "(string \<times> json_value) list"

datatype http_method = GET | POST | DELETE

record upstream_request =
  verb :: http_method
  url :: string
  payload :: "json_value option"
  timeout :: nat

text \<open>
  An \<^verbatim>\<open>httpx.Response\<close>: its \<^verbatim>\<open>status_code\<close>, its \<^verbatim>\<open>text\<close> and the result of
  \<^verbatim>\<open>json()\<close>, which is \<open>None\<close> when the body is not JSON and the call raises.
\<close>

record Response =
  status_code :: nat
  body_text :: string
  json :: "json_value option"

text \<open>
  The outcome of one call through the client: a response, an \<^verbatim>\<open>httpx.RequestError\<close>
  (connection refused, DNS failure, timeout) or any other exception, each exception with
  its \<^verbatim>\<open>str(e)\<close>.
\<close>

datatype upstream_outcome =
    Responded Response
  | RequestError string
  | OtherException string

type_synonym client = "upstream_request \<Rightarrow> upstream_outcome"

text \<open>\<^verbatim>\<open>fastapi.HTTPException(status_code=..., detail=...)\<close>.\<close>

datatype http_exception = HTTPException (exc_status_code: nat) (detail: string)

text \<open>
  Exceptions that the Python runtime or pydantic raise inside a handler. Their message
  text is produced by the runtime; \<open>str_exception\<close> stands for it with the class name.
\<close>

datatype py_exception = JSONDecodeError | TypeError | AttributeError | ValidationError

definition str_exception :: "py_exception \<Rightarrow> string" where
  "str_exception e =
     (case e of JSONDecodeError \<Rightarrow> ''JSONDecodeError'' | TypeError \<Rightarrow> ''TypeError''
      | AttributeError \<Rightarrow> ''AttributeError'' | ValidationError \<Rightarrow> ''ValidationError'')"

text \<open>
  FastAPI sends a returned instance of the response model with status 200 and a raised
  \<^verbatim>\<open>HTTPException\<close> with the status the exception carries.
\<close>

definition http_status :: "http_exception + 'a \<Rightarrow> nat" where
  "http_status out = (case out of Inl e \<Rightarrow> exc_status_code e | Inr _ \<Rightarrow> 200)"

subsection \<open>Strings\<close>

text \<open>Python's \<^verbatim>\<open>str(n)\<close> for a status code, as it is formatted into an f-string.\<close>

fun str_nat :: "nat \<Rightarrow> string" where
  "str_nat n =
     (if n < 10 then [''0123456789'' ! n]
      else str_nat (n div 10) @ [''0123456789'' ! (n mod 10)])"

declare str_nat.simps [simp del]

text \<open>Python's \<^verbatim>\<open>sub in s\<close> on strings.\<close>

definition contains :: "string \<Rightarrow> string \<Rightarrow> bool" where
  "contains s sub = sublist sub s"

subsection \<open>Message texts of the source\<close>

definition msg_models_failed :: string where \<comment> \<open>Failed to get the model list: \<close>
  "msg_models_failed =
     [CHR 0xE8, CHR 0x8E, CHR 0xB7, CHR 0xE5, CHR 0x8F, CHR 0x96, CHR 0xE6, CHR 0xA8, CHR 0xA1, CHR 0xE5, CHR 0x9E, CHR 0x8B, CHR 0xE5, CHR 0x88, CHR 0x97, CHR 0xE8, CHR 0xA1, CHR 0xA8, CHR 0xE5, CHR 0xA4, CHR 0xB1, CHR 0xE8, CHR 0xB4, CHR 0xA5] @ '': ''"

definition msg_cannot_connect :: string where \<comment> \<open>Cannot connect to the Ollama service: \<close>
  "msg_cannot_connect =
     [CHR 0xE6, CHR 0x97, CHR 0xA0, CHR 0xE6, CHR 0xB3, CHR 0x95, CHR 0xE8, CHR 0xBF, CHR 0x9E, CHR 0xE6, CHR 0x8E, CHR 0xA5, CHR 0xE5, CHR 0x88, CHR 0xB0] @ '' Ollama '' @ [CHR 0xE6, CHR 0x9C, CHR 0x8D, CHR 0xE5, CHR 0x8A, CHR 0xA1] @ '': ''"

definition msg_models_internal :: string where \<comment> \<open>Internal error while getting the model list: \<close>
  "msg_models_internal =
     [CHR 0xE8, CHR 0x8E, CHR 0xB7, CHR 0xE5, CHR 0x8F, CHR 0x96, CHR 0xE6, CHR 0xA8, CHR 0xA1, CHR 0xE5, CHR 0x9E, CHR 0x8B, CHR 0xE5, CHR 0x88, CHR 0x97, CHR 0xE8, CHR 0xA1, CHR 0xA8, CHR 0xE6, CHR 0x97, CHR 0xB6, CHR 0xE5, CHR 0x8F, CHR 0x91, CHR 0xE7, CHR 0x94, CHR 0x9F, CHR 0xE5, CHR 0x86, CHR 0x85, CHR 0xE9, CHR 0x83, CHR 0xA8, CHR 0xE9, CHR 0x94, CHR 0x99, CHR 0xE8, CHR 0xAF, CHR 0xAF] @ '': ''"

definition msg_version_failed :: string where \<comment> \<open>Failed to get the version information: \<close>
  "msg_version_failed =
     [CHR 0xE8, CHR 0x8E, CHR 0xB7, CHR 0xE5, CHR 0x8F, CHR 0x96, CHR 0xE7, CHR 0x89, CHR 0x88, CHR 0xE6, CHR 0x9C, CHR 0xAC, CHR 0xE4, CHR 0xBF, CHR 0xA1, CHR 0xE6, CHR 0x81, CHR 0xAF, CHR 0xE5, CHR 0xA4, CHR 0xB1, CHR 0xE8, CHR 0xB4, CHR 0xA5] @ '': ''"

definition msg_version_internal :: string where \<comment> \<open>Internal error while getting the version information: \<close>
  "msg_version_internal =
     [CHR 0xE8, CHR 0x8E, CHR 0xB7, CHR 0xE5, CHR 0x8F, CHR 0x96, CHR 0xE7, CHR 0x89, CHR 0x88, CHR 0xE6, CHR 0x9C, CHR 0xAC, CHR 0xE4, CHR 0xBF, CHR 0xA1, CHR 0xE6, CHR 0x81, CHR 0xAF, CHR 0xE6, CHR 0x97, CHR 0xB6, CHR 0xE5, CHR 0x8F, CHR 0x91, CHR 0xE7, CHR 0x94, CHR 0x9F, CHR 0xE5, CHR 0x86, CHR 0x85, CHR 0xE9, CHR 0x83, CHR 0xA8, CHR 0xE9, CHR 0x94, CHR 0x99, CHR 0xE8, CHR 0xAF, CHR 0xAF] @ '': ''"

definition msg_model_open :: string where \<comment> \<open>Model ' (opening quote)\<close>
  "msg_model_open =
     [CHR 0xE6, CHR 0xA8, CHR 0xA1, CHR 0xE5, CHR 0x9E, CHR 0x8B] @ '' '' @ [CHR 0x27]"

definition msg_deleted :: string where \<comment> \<open>' deleted successfully\<close>
  "msg_deleted =
     [CHR 0x27] @ '' '' @ [CHR 0xE5, CHR 0x88, CHR 0xA0, CHR 0xE9, CHR 0x99, CHR 0xA4, CHR 0xE6, CHR 0x88, CHR 0x90, CHR 0xE5, CHR 0x8A, CHR 0x9F]"

definition msg_not_found :: string where \<comment> \<open>' not found\<close>
  "msg_not_found =
     [CHR 0x27] @ '' '' @ [CHR 0xE6, CHR 0x9C, CHR 0xAA, CHR 0xE6, CHR 0x89, CHR 0xBE, CHR 0xE5, CHR 0x88, CHR 0xB0]"

definition msg_delete_failed :: string where \<comment> \<open>Failed to delete the model: \<close>
  "msg_delete_failed =
     [CHR 0xE5, CHR 0x88, CHR 0xA0, CHR 0xE9, CHR 0x99, CHR 0xA4, CHR 0xE6, CHR 0xA8, CHR 0xA1, CHR 0xE5, CHR 0x9E, CHR 0x8B, CHR 0xE5, CHR 0xA4, CHR 0xB1, CHR 0xE8, CHR 0xB4, CHR 0xA5] @ '': ''"

definition msg_delete_internal :: string where \<comment> \<open>Internal error while deleting the model: \<close>
  "msg_delete_internal =
     [CHR 0xE5, CHR 0x88, CHR 0xA0, CHR 0xE9, CHR 0x99, CHR 0xA4, CHR 0xE6, CHR 0xA8, CHR 0xA1, CHR 0xE5, CHR 0x9E, CHR 0x8B, CHR 0xE6, CHR 0x97, CHR 0xB6, CHR 0xE5, CHR 0x8F, CHR 0x91, CHR 0xE7, CHR 0x94, CHR 0x9F, CHR 0xE5, CHR 0x86, CHR 0x85, CHR 0xE9, CHR 0x83, CHR 0xA8, CHR 0xE9, CHR 0x94, CHR 0x99, CHR 0xE8, CHR 0xAF, CHR 0xAF] @ '': ''"

definition msg_connection_error :: string where \<comment> \<open>Connection error: \<close>
  "msg_connection_error =
     [CHR 0xE8, CHR 0xBF, CHR 0x9E, CHR 0xE6, CHR 0x8E, CHR 0xA5, CHR 0xE9, CHR 0x94, CHR 0x99, CHR 0xE8, CHR 0xAF, CHR 0xAF] @ '': ''"

definition msg_unknown_error :: string where \<comment> \<open>Unknown error: \<close>
  "msg_unknown_error =
     [CHR 0xE6, CHR 0x9C, CHR 0xAA, CHR 0xE7, CHR 0x9F, CHR 0xA5, CHR 0xE9, CHR 0x94, CHR 0x99, CHR 0xE8, CHR 0xAF, CHR 0xAF] @ '': ''"

subsection \<open>Configuration and pydantic models\<close>

definition OLLAMA_BASE_URL :: string where
  "OLLAMA_BASE_URL = ''http://localhost:11434''"

record OllamaRequest =
  model :: string
  prompt :: string
  stream :: bool

record HealthResponse =
  status :: string
  timestamp :: string
  ollama_connected :: bool
  ollama_url :: string

subsection \<open>generate\_text\<close>

text \<open>
  The handler of \<^verbatim>\<open>POST /api/generate\<close>. Its body only branches on \<^verbatim>\<open>request.stream\<close>.
  With the flag set it evaluates \<^verbatim>\<open>StreamingResponse()\<close>: the constructor of starlette
  requires the argument \<^verbatim>\<open>content\<close>, so the call raises \<^verbatim>\<open>TypeError\<close>, which nothing
  in the handler catches. Otherwise it executes a bare \<^verbatim>\<open>return\<close>, whose value is
  \<^verbatim>\<open>None\<close>. Neither branch touches \<^verbatim>\<open>httpx\<close>, so the list of issued requests is
  empty, and neither raises an \<^verbatim>\<open>HTTPException\<close>: the outcome is the uncaught exception
  or the value returned.
\<close>

datatype generate_return = PyNone

definition generate_text ::
  "client \<Rightarrow> OllamaRequest \<Rightarrow> upstream_request list \<times> (py_exception + generate_return)" where
  "generate_text client request =
     (if stream request then ([], Inl TypeError)
      else ([], Inr PyNone))"

subsection \<open>health\_check\<close>

definition tags_request :: "nat \<Rightarrow> upstream_request" where
  "tags_request secs =
     \<lparr>verb = GET, url = OLLAMA_BASE_URL @ ''/api/tags'', payload = None, timeout = secs\<rparr>"

text \<open>
  \<open>now\<close> is the formatted local time read at entry. The bare \<^verbatim>\<open>except:\<close> catches
  every exception of the probe.
\<close>

definition health_check ::
  "string \<Rightarrow> client \<Rightarrow> upstream_request list \<times> (http_exception + HealthResponse)" where
  "health_check now client =
     (let rq = tags_request 5;
          ollama_connected =
            (case client rq of
               Responded response \<Rightarrow> status_code response = 200
             | RequestError _ \<Rightarrow> False
             | OtherException _ \<Rightarrow> False)
      in ([rq],
          Inr \<lparr>status = ''healthy'', timestamp = now, ollama_connected = ollama_connected,
               HealthResponse.ollama_url = OLLAMA_BASE_URL\<rparr>))"

subsection \<open>Python floats\<close>

text \<open>
  A Python float is an IEEE 754 binary64 number, taken here by its exact value, a
  rational. Every arithmetic operation computes the exact result and rounds it to the
  nearest binary64 number, ties to the even significand: \<open>fl\<close>. The spacing of the
  binary64 numbers around \<open>x\<close> is \<open>2 ^ (e - 52)\<close> with \<open>e = \<lfloor>log\<^sub>2 \<bar>x\<bar>\<rfloor>\<close>, and
  \<open>2 ^ (- 1074)\<close> in the subnormal range. Overflow to infinity is not modelled: a reading
  of \<^verbatim>\<open>time.time()\<close> is at most \<open>2 ^ 63\<close> nanoseconds in magnitude, so no operation of
  the connectivity handler comes near the largest binary64 number.
\<close>

fun bit_length :: "nat \<Rightarrow> nat" where
  "bit_length n = (if n = 0 then 0 else Suc (bit_length (n div 2)))"

declare bit_length.simps [simp del]

text \<open>\<open>\<lfloor>log\<^sub>2 x\<rfloor>\<close> for a positive rational.\<close>

definition ilog2 :: "rat \<Rightarrow> int" where
  "ilog2 x =
     (if 1 \<le> x then int (bit_length (nat \<lfloor>x\<rfloor>)) - 1
      else - int (bit_length (nat (\<lceil>1 / x\<rceil> - 1))))"

definition pow2 :: "int \<Rightarrow> rat" where
  "pow2 k = (if 0 \<le> k then 2 ^ nat k else 1 / 2 ^ nat (- k))"

definition round_half_even :: "rat \<Rightarrow> int" where
  "round_half_even y =
     (let f = \<lfloor>y\<rfloor>; d = y - of_int f
      in if d < 1 / 2 then f else if 1 / 2 < d then f + 1 else if even f then f else f + 1)"

definition fl :: "rat \<Rightarrow> rat" where
  "fl x =
     (if x = 0 then 0
      else let e = max (ilog2 \<bar>x\<bar>) (- 1022); ulp = pow2 (e - 52)
           in of_int (round_half_even (x / ulp)) * ulp)"

definition float_sub :: "rat \<Rightarrow> rat \<Rightarrow> rat" where
  "float_sub a b = fl (a - b)"

definition float_mul :: "rat \<Rightarrow> rat \<Rightarrow> rat" where
  "float_mul a b = fl (a * b)"

text \<open>
  Python's \<^verbatim>\<open>round(x, ndigits)\<close> on a float: the exact value of \<open>x\<close> is rounded to
  \<open>ndigits\<close> decimal places, ties to the even digit, and the float nearest to that
  decimal number is returned.
\<close>

definition py_round :: "rat \<Rightarrow> nat \<Rightarrow> rat" where
  "py_round x ndigits = fl (of_int (round_half_even (x * 10 ^ ndigits)) / 10 ^ ndigits)"

subsection \<open>test\_ollama\_connectivity\<close>

record OllamaConnectivityResponse =
  connected :: bool
  ollama_url :: string
  response_time_ms :: "rat option"
  error_message :: "string option"

text \<open>
  \<open>start_time\<close> and \<open>end_time\<close> are the two readings of \<^verbatim>\<open>time.time()\<close>: every path
  through the handler reads the clock once at entry and once more, after the response
  arrived or inside the exception handler. Nothing relates the two readings: the clock is
  the system's wall clock.
\<close>

definition test_ollama_connectivity ::
  "rat \<Rightarrow> rat \<Rightarrow> client \<Rightarrow>
     upstream_request list \<times> (http_exception + OllamaConnectivityResponse)" where
  "test_ollama_connectivity start_time end_time client =
     (let rq = tags_request 10;
          response_time_ms = float_mul (float_sub end_time start_time) 1000
      in ([rq],
          case client rq of
            Responded response \<Rightarrow>
              if status_code response = 200 then
                Inr \<lparr>connected = True, ollama_url = OLLAMA_BASE_URL,
                     response_time_ms = Some (py_round response_time_ms 2),
                     error_message = None\<rparr>
              else
                Inr \<lparr>connected = False, ollama_url = OLLAMA_BASE_URL,
                     response_time_ms = Some (py_round response_time_ms 2),
                     error_message =
                       Some (''HTTP '' @ str_nat (status_code response) @ '': ''
                             @ body_text response)\<rparr>
          | RequestError e \<Rightarrow>
              Inr \<lparr>connected = False, ollama_url = OLLAMA_BASE_URL,
                   response_time_ms = Some (py_round response_time_ms 2),
                   error_message = Some (msg_connection_error @ e)\<rparr>
          | OtherException e \<Rightarrow>
              Inr \<lparr>connected = False, ollama_url = OLLAMA_BASE_URL,
                   response_time_ms = Some (py_round response_time_ms 2),
                   error_message = Some (msg_unknown_error @ e)\<rparr>))"

subsection \<open>get\_available\_models\<close>

record ModelInfo =
  name :: string
  size_field :: "string option"
  modified :: "string option"

record ModelsResponse =
  models :: "ModelInfo list"
  count :: int

text \<open>
  \<^verbatim>\<open>response.raise_for_status()\<close> of httpx returns for a 2xx status and raises
  \<^verbatim>\<open>HTTPStatusError\<close> for every other one.
\<close>

definition is_success :: "Response \<Rightarrow> bool" where
  "is_success response = (200 \<le> status_code response \<and> status_code response < 300)"

text \<open>\<^verbatim>\<open>d.get(key, default)\<close> on a parsed JSON object.\<close>

definition dict_get :: "(string \<times> json_value) list \<Rightarrow> string \<Rightarrow> json_value \<Rightarrow> json_value" where
  "dict_get d key dflt = (case map_of d key of None \<Rightarrow> dflt | Some v \<Rightarrow> v)"

text \<open>
  pydantic's validation of a field declared \<^verbatim>\<open>str\<close>, of one declared
  \<^verbatim>\<open>Optional[str]\<close> and of one declared \<^verbatim>\<open>bool\<close>; \<open>None\<close> is a validation error.
  A string field takes a string only. A boolean field also takes the numbers 0 and 1 and
  the usual spellings of the two truth values, compared without regard to case.
\<close>

definition validate_str :: "json_value \<Rightarrow> string option" where
  "validate_str v = (case v of JStr s \<Rightarrow> Some s | _ \<Rightarrow> None)"

definition validate_optional_str :: "json_value \<Rightarrow> string option option" where
  "validate_optional_str v =
     (case v of JNull \<Rightarrow> Some None | JStr s \<Rightarrow> Some (Some s) | _ \<Rightarrow> None)"

definition lower :: "string \<Rightarrow> string" where
  "lower s =
     map (\<lambda>c. case map_of (zip ''ABCDEFGHIJKLMNOPQRSTUVWXYZ'' ''abcdefghijklmnopqrstuvwxyz'') c of
                None \<Rightarrow> c | Some l \<Rightarrow> l) s"

definition validate_bool :: "json_value \<Rightarrow> bool option" where
  "validate_bool v =
     (case v of
        JBool b \<Rightarrow> Some b
      | JInt i \<Rightarrow> (if i = 0 then Some False else if i = 1 then Some True else None)
      | JFloat x \<Rightarrow> (if x = 0 then Some False else if x = 1 then Some True else None)
      | JStr s \<Rightarrow>
          (if lower s \<in> set [''0'', ''off'', ''f'', ''false'', ''n'', ''no''] then Some False
           else if lower s \<in> set [''1'', ''on'', ''t'', ''true'', ''y'', ''yes''] then Some True
           else None)
      | _ \<Rightarrow> None)"

text \<open>
  The construction of one \<^verbatim>\<open>ModelInfo\<close> from an entry of the listing:
  \<^verbatim>\<open>model_data.get\<close> exists on a dict only, and the three values fetched are validated
  against the declared field types.
\<close>

definition make_ModelInfo :: "json_value \<Rightarrow> py_exception + ModelInfo" where
  "make_ModelInfo model_data =
     (case model_data of
        JObj d \<Rightarrow>
          (case (validate_str (dict_get d ''name'' (JStr ''unknown'')),
                 validate_optional_str (dict_get d ''size'' JNull),
                 validate_optional_str (dict_get d ''modified_at'' JNull)) of
             (Some n, Some s, Some m) \<Rightarrow> Inr \<lparr>name = n, size_field = s, modified = m\<rparr>
           | _ \<Rightarrow> Inl ValidationError)
      | _ \<Rightarrow> Inl AttributeError)"

text \<open>The \<^verbatim>\<open>for\<close> loop, appending to the list \<^verbatim>\<open>models\<close> (here \<open>model_list\<close>); the first
  exception ends it.\<close>

fun append_models :: "json_value list \<Rightarrow> ModelInfo list \<Rightarrow> py_exception + ModelInfo list" where
  "append_models [] model_list = Inr model_list"
| "append_models (model_data # rest) model_list =
     (case make_ModelInfo model_data of
        Inl e \<Rightarrow> Inl e
      | Inr model_info \<Rightarrow> append_models rest (model_list @ [model_info]))"

text \<open>
  What a \<^verbatim>\<open>for\<close> loop iterates over: the elements of an array, the keys of an object,
  the characters of a string; any other value is not iterable.
\<close>

definition iterate :: "json_value \<Rightarrow> py_exception + json_value list" where
  "iterate v =
     (case v of
        JArr xs \<Rightarrow> Inr xs
      | JObj d \<Rightarrow> Inr (map (\<lambda>kv. JStr (fst kv)) d)
      | JStr s \<Rightarrow> Inr (map (\<lambda>c. JStr [c]) s)
      | _ \<Rightarrow> Inl TypeError)"

text \<open>
  The body of the handler after \<^verbatim>\<open>response.json()\<close>. The test
  \<^verbatim>\<open>"models" in ollama_data\<close> is key membership on an object, element membership on an
  array and substring search on a string; \<^verbatim>\<open>ollama_data["models"]\<close> is defined on an
  object only.
\<close>

definition parse_models :: "json_value \<Rightarrow> py_exception + ModelInfo list" where
  "parse_models ollama_data =
     (case ollama_data of
        JObj d \<Rightarrow>
          (case map_of d ''models'' of
             None \<Rightarrow> Inr []
           | Some v \<Rightarrow>
               (case iterate v of Inl e \<Rightarrow> Inl e | Inr xs \<Rightarrow> append_models xs []))
      | JArr xs \<Rightarrow> (if JStr ''models'' \<in> set xs then Inl TypeError else Inr [])
      | JStr s \<Rightarrow> (if contains s ''models'' then Inl TypeError else Inr [])
      | _ \<Rightarrow> Inl TypeError)"

definition get_available_models ::
  "client \<Rightarrow> upstream_request list \<times> (http_exception + ModelsResponse)" where
  "get_available_models client =
     (let rq = tags_request 10
      in ([rq],
          case client rq of
            Responded response \<Rightarrow>
              if \<not> is_success response then
                Inl (HTTPException (status_code response)
                       (msg_models_failed @ str_nat (status_code response) @ '' - ''
                        @ body_text response))
              else
                (case json response of
                   None \<Rightarrow>
                     Inl (HTTPException 500 (msg_models_internal @ str_exception JSONDecodeError))
                 | Some ollama_data \<Rightarrow>
                     (case parse_models ollama_data of
                        Inl e \<Rightarrow> Inl (HTTPException 500 (msg_models_internal @ str_exception e))
                      | Inr model_list \<Rightarrow>
                          Inr \<lparr>models = model_list, count = int (length model_list)\<rparr>))
          | RequestError e \<Rightarrow> Inl (HTTPException 503 (msg_cannot_connect @ e))
          | OtherException e \<Rightarrow> Inl (HTTPException 500 (msg_models_internal @ e))))"

subsection \<open>get\_ollama\_version\<close>

definition version_request :: upstream_request where
  "version_request =
     \<lparr>verb = GET, url = OLLAMA_BASE_URL @ ''/api/version'', payload = None, timeout = 5\<rparr>"

definition get_ollama_version ::
  "client \<Rightarrow> upstream_request list \<times> (http_exception + json_value)" where
  "get_ollama_version client =
     (let rq = version_request
      in ([rq],
          case client rq of
            Responded response \<Rightarrow>
              if \<not> is_success response then
                Inl (HTTPException (status_code response)
                       (msg_version_failed @ str_nat (status_code response) @ '' - ''
                        @ body_text response))
              else
                (case json response of
                   None \<Rightarrow>
                     Inl (HTTPException 500 (msg_version_internal @ str_exception JSONDecodeError))
                 | Some v \<Rightarrow> Inr v)
          | RequestError e \<Rightarrow> Inl (HTTPException 503 (msg_cannot_connect @ e))
          | OtherException e \<Rightarrow> Inl (HTTPException 500 (msg_version_internal @ e))))"

subsection \<open>delete\_model\<close>

text \<open>
  The handler builds the payload (here \<open>data\<close>) and calls \<^verbatim>\<open>client.delete(url, json=payload)\<close>. The
  \<^verbatim>\<open>delete\<close> method of \<^verbatim>\<open>httpx.AsyncClient\<close> takes no \<^verbatim>\<open>json\<close> argument, so the call
  raises \<^verbatim>\<open>TypeError\<close> before any request is sent. The exception is neither an
  \<^verbatim>\<open>HTTPStatusError\<close> nor a \<^verbatim>\<open>RequestError\<close>; the last handler,
  \<^verbatim>\<open>except Exception\<close>, turns it into a 500. The branches of the handler for an
  upstream answer are kept as the source has them; they are never reached.
\<close>

definition client_delete_json ::
  "client \<Rightarrow> string \<Rightarrow> json_value \<Rightarrow> py_exception + upstream_outcome" where
  "client_delete_json client target data = Inl TypeError"

definition delete_model ::
  "client \<Rightarrow> string \<Rightarrow> upstream_request list \<times> (http_exception + json_value)" where
  "delete_model client model_name =
     (let data = JObj [(''name'', JStr model_name)];
          target = OLLAMA_BASE_URL @ ''/api/delete''
      in case client_delete_json client target data of
           Inl e \<Rightarrow> ([], Inl (HTTPException 500 (msg_delete_internal @ str_exception e)))
         | Inr outcome \<Rightarrow>
             ([\<lparr>verb = DELETE, url = target, payload = Some data, timeout = 30\<rparr>],
              case outcome of
                Responded response \<Rightarrow>
                  if \<not> is_success response then
                    if status_code response = 404 then
                      Inl (HTTPException 404 (msg_model_open @ model_name @ msg_not_found))
                    else
                      Inl (HTTPException (status_code response)
                             (msg_delete_failed @ str_nat (status_code response) @ '' - ''
                              @ body_text response))
                  else
                    Inr (JObj [(''message'', JStr (msg_model_open @ model_name @ msg_deleted))])
              | RequestError e \<Rightarrow> Inl (HTTPException 503 (msg_cannot_connect @ e))
              | OtherException e \<Rightarrow> Inl (HTTPException 500 (msg_delete_internal @ e))))"

subsection \<open>Validation of the generate request body\<close>

text \<open>
  FastAPI validates the parsed body against \<^verbatim>\<open>OllamaRequest\<close>: \<^verbatim>\<open>model: str\<close> and
  \<^verbatim>\<open>prompt: str\<close> are required, \<^verbatim>\<open>stream: bool = False\<close> has a default, and keys the
  class does not declare are ignored. The class declares no constraint on the strings.
  The error lists the fields that failed, in the order of declaration.
\<close>

datatype validation_error = Missing string | Invalid string

definition required_str ::
  "(string \<times> json_value) list \<Rightarrow> string \<Rightarrow> validation_error + string" where
  "required_str d key =
     (case map_of d key of
        None \<Rightarrow> Inl (Missing key)
      | Some v \<Rightarrow> (case validate_str v of None \<Rightarrow> Inl (Invalid key) | Some s \<Rightarrow> Inr s))"

definition default_bool ::
  "(string \<times> json_value) list \<Rightarrow> string \<Rightarrow> bool \<Rightarrow> validation_error + bool" where
  "default_bool d key dflt =
     (case map_of d key of
        None \<Rightarrow> Inr dflt
      | Some v \<Rightarrow> (case validate_bool v of None \<Rightarrow> Inl (Invalid key) | Some b \<Rightarrow> Inr b))"

definition errors_of :: "validation_error + 'a \<Rightarrow> validation_error list" where
  "errors_of r = (case r of Inl e \<Rightarrow> [e] | Inr _ \<Rightarrow> [])"

definition validate_OllamaRequest :: "json_value \<Rightarrow> validation_error list + OllamaRequest" where
  "validate_OllamaRequest body =
     (case body of
        JObj d \<Rightarrow>
          (case (required_str d ''model'', required_str d ''prompt'',
                 default_bool d ''stream'' False) of
             (Inr m, Inr p, Inr s) \<Rightarrow> Inr \<lparr>model = m, prompt = p, stream = s\<rparr>
           | (m, p, s) \<Rightarrow> Inl (errors_of m @ errors_of p @ errors_of s))
      | _ \<Rightarrow> Inl [Invalid ''body''])"

subsection \<open>Vocabulary of the properties\<close>

text \<open>The probe of the health and connectivity endpoints succeeded: status 200.\<close>

definition probe_ok :: "upstream_outcome \<Rightarrow> bool" where
  "probe_ok out =
     (case out of Responded response \<Rightarrow> status_code response = 200 | _ \<Rightarrow> False)"



subsection \<open>Upstream answers used as concrete inputs\<close>

definition quoted :: "string \<Rightarrow> string" where
  "quoted s = [CHR 0x22] @ s @ [CHR 0x22]"

text \<open>A complete answer to a generate call.\<close>

definition upstream_generate_ok :: Response where
  "upstream_generate_ok =
     \<lparr>status_code = 200,
      body_text = ''{'' @ quoted ''model'' @ '':'' @ quoted ''test-model'' @ '',''
                  @ quoted ''response'' @ '':'' @ quoted ''hello'' @ '',''
                  @ quoted ''done'' @ '':true}'',
      json = Some (JObj [(''model'', JStr ''test-model''), (''response'', JStr ''hello''),
                         (''done'', JBool True)])\<rparr>"

text \<open>An answer with status 200 that lacks the \<^verbatim>\<open>response\<close> key.\<close>

definition upstream_missing_response :: Response where
  "upstream_missing_response =
     \<lparr>status_code = 200,
      body_text = ''{'' @ quoted ''model'' @ '':'' @ quoted ''m'' @ '',''
                  @ quoted ''done'' @ '':true}'',
      json = Some (JObj [(''model'', JStr ''m''), (''done'', JBool True)])\<rparr>"

definition upstream_model_not_found :: Response where
  "upstream_model_not_found =
     \<lparr>status_code = 404,
      body_text = ''Ollama error: model '' @ [CHR 0x27] @ ''non-existent-model'' @ [CHR 0x27]
                  @ '' not found'',
      json = None\<rparr>"

definition upstream_bad_request :: Response where
  "upstream_bad_request =
     \<lparr>status_code = 400, body_text = ''Ollama error: bad request'', json = None\<rparr>"






section \<open>Properties\<close>

subsection \<open>Auxiliary facts\<close>

lemma contains_self: "contains s s"
  by (simp add: contains_def)

lemma contains_append_right: "contains t sub \<Longrightarrow> contains (s @ t) sub"
proof -
  assume "contains t sub"
  then obtain ps ss where "t = ps @ sub @ ss"
    by (auto simp: contains_def sublist_def)
  then have "s @ t = (s @ ps) @ sub @ ss" by simp
  then show ?thesis unfolding contains_def sublist_def by blast
qed

lemma contains_append_left: "contains s sub \<Longrightarrow> contains (s @ t) sub"
proof -
  assume "contains s sub"
  then obtain ps ss where "s = ps @ sub @ ss"
    by (auto simp: contains_def sublist_def)
  then have "s @ t = ps @ sub @ (ss @ t)" by simp
  then show ?thesis unfolding contains_def sublist_def by blast
qed

lemma generate_text_no_upstream_call: "fst (generate_text client request) = []"
  by (simp add: generate_text_def)






lemma bit_length_bounds: "0 < n \<Longrightarrow> 2 ^ (bit_length n - 1) \<le> n \<and> n < 2 ^ bit_length n"
proof (induction n rule: bit_length.induct)
  case (1 n)
  show ?case
  proof (cases "n div 2 = 0")
    case True
    with "1.prems" have "n = 1" by (simp add: div_eq_0_iff)
    then show ?thesis by (simp add: bit_length.simps)
  next
    case False
    with "1.IH" "1.prems" have ih: "2 ^ (bit_length (n div 2) - 1) \<le> n div 2"
      "n div 2 < 2 ^ bit_length (n div 2)"
      by auto
    have pos: "0 < bit_length (n div 2)" using False by (simp add: bit_length.simps)
    have eq: "bit_length n = Suc (bit_length (n div 2))"
      using "1.prems" by (simp add: bit_length.simps)
    have "2 ^ (bit_length n - 1) = 2 * 2 ^ (bit_length (n div 2) - 1)"
      using pos eq by (cases "bit_length (n div 2)") simp_all
    also have "\<dots> \<le> 2 * (n div 2)" using ih(1) by simp
    also have "\<dots> \<le> n" by simp
    finally have lower: "2 ^ (bit_length n - 1) \<le> n" .
    have "n < 2 * (n div 2) + 2" by presburger
    also have "\<dots> \<le> 2 * 2 ^ bit_length (n div 2)" using ih(2) by simp
    finally have "n < 2 ^ bit_length n" using eq by simp
    with lower show ?thesis by simp
  qed
qed

lemma bit_length_pos: "0 < n \<Longrightarrow> 0 < bit_length n"
  by (simp add: bit_length.simps)

text \<open>\<open>ilog2\<close> is the binary exponent: \<open>2 ^ ilog2 x \<le> x < 2 ^ (ilog2 x + 1)\<close>.\<close>

lemma ilog2_bounds:
  assumes "0 < x"
  shows "pow2 (ilog2 x) \<le> x \<and> x < pow2 (ilog2 x + 1)"
proof (cases "1 \<le> x")
  case True
  define n where "n = nat \<lfloor>x\<rfloor>"
  define b where "b = bit_length n"
  have n: "0 < n" "of_nat n \<le> x" "x < of_nat n + 1"
    using True unfolding n_def by (simp_all add: le_floor_iff) linarith+
  from bit_length_bounds [OF n(1)] have bb: "2 ^ (b - 1) \<le> n" "n < 2 ^ b"
    unfolding b_def by simp_all
  have bpos: "0 < b" unfolding b_def using n(1) by (rule bit_length_pos)
  have il: "ilog2 x = int b - 1" using True by (simp add: ilog2_def n_def b_def)
  have p1: "pow2 (ilog2 x) = 2 ^ (b - 1)"
    using bpos by (simp add: il pow2_def nat_diff_distrib')
  have p2: "pow2 (ilog2 x + 1) = 2 ^ b" by (simp add: il pow2_def)
  have "(2::rat) ^ (b - 1) \<le> of_nat n"
    using bb(1) by (metis of_nat_le_iff of_nat_numeral of_nat_power)
  with n(2) have lower: "(2::rat) ^ (b - 1) \<le> x" by linarith
  have "n + 1 \<le> 2 ^ b" using bb(2) by simp
  then have "(of_nat (n + 1) :: rat) \<le> of_nat (2 ^ b)" by (simp only: of_nat_le_iff)
  then have "(of_nat n :: rat) + 1 \<le> 2 ^ b" by simp
  with n(3) have upper: "x < 2 ^ b" by linarith
  from lower upper p1 p2 show ?thesis by simp
next
  case False
  define y where "y = 1 / x"
  have y: "1 < y" using False assms unfolding y_def by simp
  define m where "m = nat (\<lceil>y\<rceil> - 1)"
  define b where "b = bit_length m"
  have "2 \<le> \<lceil>y\<rceil>" using y by linarith
  then have m: "0 < m" unfolding m_def by simp
  have my: "of_nat m < y" "y \<le> of_nat m + 1"
    using \<open>2 \<le> \<lceil>y\<rceil>\<close> unfolding m_def by (simp_all add: of_nat_nat) linarith+
  from bit_length_bounds [OF m] have bb: "2 ^ (b - 1) \<le> m" "m < 2 ^ b"
    unfolding b_def by simp_all
  have bpos: "0 < b" unfolding b_def using m by (rule bit_length_pos)
  have il: "ilog2 x = - int b" using False by (simp add: ilog2_def m_def b_def y_def)
  have p1: "pow2 (ilog2 x) = 1 / 2 ^ b" using bpos by (simp add: il pow2_def)
  have p2: "pow2 (ilog2 x + 1) = 1 / 2 ^ (b - 1)"
    using bpos by (cases b) (simp_all add: il pow2_def)
  have "m + 1 \<le> 2 ^ b" using bb(2) by simp
  then have "(of_nat (m + 1) :: rat) \<le> of_nat (2 ^ b)" by (simp only: of_nat_le_iff)
  then have "(of_nat m :: rat) + 1 \<le> 2 ^ b" by simp
  with my(2) have "y \<le> 2 ^ b" by linarith
  then have lower: "1 / 2 ^ b \<le> x" using assms unfolding y_def by (simp add: field_simps)
  have "(2::rat) ^ (b - 1) \<le> of_nat m"
    using bb(1) by (metis of_nat_le_iff of_nat_numeral of_nat_power)
  with my(1) have "2 ^ (b - 1) < y" by linarith
  then have upper: "x < 1 / 2 ^ (b - 1)"
    using assms unfolding y_def by (simp add: field_simps)
  from lower upper p1 p2 show ?thesis by simp
qed

text \<open>
  The model agrees with Python on sample values: \<^verbatim>\<open>0.1 + 0.2\<close> is not \<^verbatim>\<open>0.3\<close>, and
  \<^verbatim>\<open>round(2.675, 2)\<close> is the float \<^verbatim>\<open>2.67\<close>, because the float \<^verbatim>\<open>2.675\<close> lies below
  the decimal number.
\<close>

lemma fl_samples:
  "fl (1 / 10) = 3602879701896397 / 36028797018963968"
  "fl (fl (1 / 10) + fl (2 / 10)) = 1351079888211149 / 4503599627370496"
  "fl (3 / 10) = 5404319552844595 / 18014398509481984"
  "py_round (fl (2675 / 1000)) 2 = fl (267 / 100)"
  by code_simp+


lemma health_check_returns:
  "snd (health_check now client) =
     Inr \<lparr>status = ''healthy'', timestamp = now,
          ollama_connected = probe_ok (client (tags_request 5)),
          HealthResponse.ollama_url = OLLAMA_BASE_URL\<rparr>"
  unfolding health_check_def probe_ok_def Let_def
  by (cases "client (tags_request 5)") simp_all

lemma connectivity_returns:
  "\<exists>c. snd (test_ollama_connectivity s e client) = Inr c
     \<and> connected c = probe_ok (client (tags_request 10))
     \<and> (error_message c = None) = probe_ok (client (tags_request 10))
     \<and> response_time_ms c = Some (py_round (float_mul (float_sub e s) 1000) 2)"
proof (cases "client (tags_request 10)")
  case (Responded r)
  then show ?thesis
    unfolding test_ollama_connectivity_def probe_ok_def Let_def by simp
next
  case (RequestError m)
  then show ?thesis
    unfolding test_ollama_connectivity_def probe_ok_def Let_def by simp
next
  case (OtherException m)
  then show ?thesis
    unfolding test_ollama_connectivity_def probe_ok_def Let_def by simp
qed

subsection \<open>Upstream failures in the other proxying handlers\<close>

text \<open>
  What \<open>generate_text\<close> is documented and tested to do, \<open>get_available_models\<close> and
  \<open>get_ollama_version\<close> do: an upstream error status is passed on with status and body
  text in the detail, and a transport failure becomes a 503 whose detail carries the
  transport error. \<open>delete_model\<close> does neither: it answers 500 whatever the upstream
  would do.
\<close>

lemma status_and_body_in_detail:
  "contains (msg @ str_nat code @ '' - '' @ body) (str_nat code)
   \<and> contains (msg @ str_nat code @ '' - '' @ body) body"
proof
  show "contains (msg @ str_nat code @ '' - '' @ body) (str_nat code)"
    by (intro contains_append_right contains_append_left contains_self)
  show "contains (msg @ str_nat code @ '' - '' @ body) body"
    by (intro contains_append_right contains_self)
qed

lemma get_available_models_upstream_error:
  assumes "client (tags_request 10) = Responded r" and "\<not> is_success r"
  shows "\<exists>d. snd (get_available_models client) = Inl (HTTPException (status_code r) d)
           \<and> contains d (str_nat (status_code r)) \<and> contains d (body_text r)"
  using assms status_and_body_in_detail [of msg_models_failed "status_code r" "body_text r"]
  by (simp add: get_available_models_def Let_def)

lemma get_ollama_version_upstream_error:
  assumes "client version_request = Responded r" and "\<not> is_success r"
  shows "\<exists>d. snd (get_ollama_version client) = Inl (HTTPException (status_code r) d)
           \<and> contains d (str_nat (status_code r)) \<and> contains d (body_text r)"
  using assms status_and_body_in_detail [of msg_version_failed "status_code r" "body_text r"]
  by (simp add: get_ollama_version_def Let_def)

lemma cannot_connect_detail:
  "contains (msg_cannot_connect @ e) msg_cannot_connect \<and> contains (msg_cannot_connect @ e) e"
  by (intro conjI contains_append_right contains_append_left contains_self)

lemma get_available_models_unreachable:
  assumes "client (tags_request 10) = RequestError e"
  shows "snd (get_available_models client) = Inl (HTTPException 503 (msg_cannot_connect @ e))"
  using assms by (simp add: get_available_models_def Let_def)

lemma get_ollama_version_unreachable:
  assumes "client version_request = RequestError e"
  shows "snd (get_ollama_version client) = Inl (HTTPException 503 (msg_cannot_connect @ e))"
  using assms by (simp add: get_ollama_version_def Let_def)

lemma delete_model_always_500:
  "delete_model client model_name =
     ([], Inl (HTTPException 500 (msg_delete_internal @ str_exception TypeError)))"
  by (simp add: delete_model_def client_delete_json_def)

subsection \<open>The generate endpoint\<close>

text \<open>
  Claim C1. A valid non-streaming generate request should lead to an upstream
  \<^verbatim>\<open>POST /api/generate\<close> and, when the upstream answers 200 with \<^verbatim>\<open>model\<close>,
  \<^verbatim>\<open>response\<close> and \<^verbatim>\<open>done\<close>, to a 200 carrying these three fields. On the request
  \<^verbatim>\<open>{"model": "test-model", "prompt": "hi"}\<close> with such an upstream answer the handler
  issues no upstream request and returns \<^verbatim>\<open>None\<close>: no field is passed through.
\<close>

theorem generate_text_success_not_forwarded:
  "generate_text (\<lambda>rq. Responded upstream_generate_ok)
     \<lparr>model = ''test-model'', prompt = ''hi'', stream = False\<rparr> = ([], Inr PyNone)"
  by (simp add: generate_text_def)

text \<open>
  Claim C2. An upstream 404 should become a 404 whose message names the requested model,
  on generate and on delete. On the generate request for \<^verbatim>\<open>non-existent-model\<close>, with
  an upstream that answers 404, the handler never reaches the upstream and raises no
  \<^verbatim>\<open>HTTPException\<close>: it returns \<^verbatim>\<open>None\<close>. The delete handler does not reach the
  upstream either (\<open>delete_model_always_500\<close>).
\<close>

theorem generate_text_upstream_404_not_reported:
  "generate_text (\<lambda>rq. Responded upstream_model_not_found)
     \<lparr>model = ''non-existent-model'', prompt = ''hi'', stream = False\<rparr> = ([], Inr PyNone)"
  by (simp add: generate_text_def)

text \<open>
  Claim C3. An upstream 200 whose body lacks \<^verbatim>\<open>response\<close> should become a 500 that
  reports a malformed upstream answer. With the upstream answering
  \<^verbatim>\<open>{"model": "m", "done": true}\<close> the handler inspects no body and raises no
  \<^verbatim>\<open>HTTPException\<close>: it returns \<^verbatim>\<open>None\<close> without an upstream request.
\<close>

theorem generate_text_malformed_upstream_not_detected:
  "generate_text (\<lambda>rq. Responded upstream_missing_response)
     \<lparr>model = ''m'', prompt = ''hi'', stream = False\<rparr> = ([], Inr PyNone)"
  by (simp add: generate_text_def)

text \<open>
  Claim C4. With \<^verbatim>\<open>stream = true\<close> the gateway should either forward the upstream's
  chunks or reject the request as unsupported. The handler does neither: it issues no
  upstream request and raises no \<^verbatim>\<open>HTTPException\<close> that names the feature; the call
  \<^verbatim>\<open>StreamingResponse()\<close> fails with an uncaught \<^verbatim>\<open>TypeError\<close>.
\<close>

theorem generate_text_stream_raises_TypeError:
  "generate_text (\<lambda>rq. Responded upstream_generate_ok)
     \<lparr>model = ''test-model'', prompt = ''hi'', stream = True\<rparr>
   = ([], Inl TypeError)"
  by (simp add: generate_text_def)

text \<open>
  Claim C6. An upstream error status other than 404 should reach the caller unchanged,
  with the upstream's status and body text in the message, on generate, listModels,
  getVersion and deleteModel. \<open>get_available_models_upstream_error\<close> and
  \<open>get_ollama_version_upstream_error\<close> show it for listModels and getVersion. On a
  generate request whose upstream answers 400, the handler returns \<^verbatim>\<open>None\<close> and raises
  no \<^verbatim>\<open>HTTPException\<close> with status 400. The delete handler answers 500 on every
  input (\<open>delete_model_always_500\<close>).
\<close>

theorem generate_text_upstream_error_not_forwarded:
  "generate_text (\<lambda>rq. Responded upstream_bad_request)
     \<lparr>model = ''some-model'', prompt = ''hi'', stream = False\<rparr> = ([], Inr PyNone)"
  by (simp add: generate_text_def)

text \<open>
  Claim C7. A transport failure should become a 503 whose message carries a
  connection-error marker and the transport error text, on generate, listModels,
  getVersion and deleteModel. \<open>get_available_models_unreachable\<close> and
  \<open>get_ollama_version_unreachable\<close> show it for listModels and getVersion. On a
  generate request whose upstream refuses the connection, the handler returns
  \<^verbatim>\<open>None\<close> and raises no \<^verbatim>\<open>HTTPException\<close> with status 503. The delete handler
  answers 500 on every input (\<open>delete_model_always_500\<close>).
\<close>

theorem generate_text_transport_failure_not_reported:
  "generate_text (\<lambda>rq. RequestError ''Connection refused'')
     \<lparr>model = ''any-model'', prompt = ''hi'', stream = False\<rparr> = ([], Inr PyNone)"
  by (simp add: generate_text_def)

subsection \<open>Health and connectivity\<close>

text \<open>
  Claim C5. Whatever the upstream does (an answer with any status, a transport error,
  any other exception), \<open>health_check\<close> and \<open>test_ollama_connectivity\<close> return their
  response model, which is sent with status 200, and raise nothing. The health status is
  "healthy"; \<open>ollama_connected\<close> and \<open>connected\<close> are true exactly when the probe was
  answered with 200, and the connectivity result carries an error message exactly when
  it was not.
\<close>

theorem health_and_connectivity_never_fail:
  "http_status (snd (health_check now client)) = 200
   \<and> http_status (snd (test_ollama_connectivity s e client)) = 200
   \<and> (\<exists>h. snd (health_check now client) = Inr h \<and> status h = ''healthy''
          \<and> ollama_connected h = probe_ok (client (tags_request 5)))
   \<and> (\<exists>c. snd (test_ollama_connectivity s e client) = Inr c
          \<and> connected c = probe_ok (client (tags_request 10))
          \<and> (error_message c = None) = probe_ok (client (tags_request 10)))"
proof -
  obtain c where c: "snd (test_ollama_connectivity s e client) = Inr c"
    "connected c = probe_ok (client (tags_request 10))"
    "(error_message c = None) = probe_ok (client (tags_request 10))"
    using connectivity_returns [of s e client] by (elim exE conjE)
  have h1: "http_status (snd (health_check now client)) = 200"
    by (simp only: health_check_returns http_status_def sum.case)
  have h2: "http_status (snd (test_ollama_connectivity s e client)) = 200"
    by (simp only: c(1) http_status_def sum.case)
  have h3: "\<exists>h. snd (health_check now client) = Inr h \<and> status h = ''healthy''
          \<and> ollama_connected h = probe_ok (client (tags_request 5))"
    by (simp add: health_check_returns)
  have h4: "\<exists>c. snd (test_ollama_connectivity s e client) = Inr c
          \<and> connected c = probe_ok (client (tags_request 10))
          \<and> (error_message c = None) = probe_ok (client (tags_request 10))"
    using c by (intro exI [of _ c] conjI)
  from h1 h2 h3 h4 show ?thesis by (intro conjI)
qed




subsection \<open>Listing the models\<close>













subsection \<open>Validation of the generate request\<close>

text \<open>
  Claim C10. A generate request body whose \<^verbatim>\<open>model\<close> and \<^verbatim>\<open>prompt\<close> are strings
  passes validation with exactly these strings, the empty string included: no
  non-emptiness check is applied. \<^verbatim>\<open>stream\<close> is false when the body has no such key.
  (A \<^verbatim>\<open>stream\<close> value that is present has to be acceptable for a boolean field.)
\<close>

theorem validate_OllamaRequest_accepts_any_strings:
  assumes "map_of body ''model'' = Some (JStr m)"
    and "map_of body ''prompt'' = Some (JStr p)"
    and "\<forall>v. map_of body ''stream'' = Some v \<longrightarrow> validate_bool v \<noteq> None"
  shows "\<exists>s. validate_OllamaRequest (JObj body) = Inr \<lparr>model = m, prompt = p, stream = s\<rparr>
           \<and> (map_of body ''stream'' = None \<longrightarrow> s = False)"
  using assms
  by (auto simp: validate_OllamaRequest_def required_str_def default_bool_def validate_str_def
      split: option.splits)

theorem validate_OllamaRequest_accepts_any_strings_witness:
  "map_of [(''model'', JStr []), (''prompt'', JStr [])] ''model'' = Some (JStr [])
   \<and> map_of [(''model'', JStr []), (''prompt'', JStr [])] ''prompt'' = Some (JStr [])
   \<and> map_of [(''model'', JStr []), (''prompt'', JStr [])] ''stream'' = None
   \<and> validate_OllamaRequest (JObj [(''model'', JStr []), (''prompt'', JStr [])]) =
         Inr \<lparr>model = [], prompt = [], stream = False\<rparr>"
  using validate_OllamaRequest_accepts_any_strings
          [of "[(''model'', JStr []), (''prompt'', JStr [])]" "[]" "[]"]
  by auto

end
